theory Spec2Isabelle
  imports Complex_Main
begin

section \<open>Values of the program\<close>

subsection \<open>Floats\<close>

text \<open>
  Prices, volumes and indicator values are Python floats (pandas/numpy float64). A float
  is modelled as the real number it denotes, or NaN. An arithmetic operation on two
  numbers gives the exact result rounded to a float; the rounding function \<open>rnd\<close> is taken
  from the environment, so that nothing below depends on the result being exact. NaN
  propagates, and every ordering comparison with a NaN operand is False (IEEE 754, as
  numpy and Python have it); comparisons of two numbers are exact. The infinities are
  left out.
\<close>

datatype fl = NaN | Fin real

fun fl_lt :: "fl \<Rightarrow> fl \<Rightarrow> bool" where
  "fl_lt (Fin x) (Fin y) = (x < y)"
| "fl_lt _ _ = False"

fun fl_gt :: "fl \<Rightarrow> fl \<Rightarrow> bool" where
  "fl_gt (Fin x) (Fin y) = (x > y)"
| "fl_gt _ _ = False"

fun fl_add :: "(real \<Rightarrow> real) \<Rightarrow> fl \<Rightarrow> fl \<Rightarrow> fl" where
  "fl_add rnd (Fin x) (Fin y) = Fin (rnd (x + y))"
| "fl_add rnd _ _ = NaN"

fun fl_sub :: "(real \<Rightarrow> real) \<Rightarrow> fl \<Rightarrow> fl \<Rightarrow> fl" where
  "fl_sub rnd (Fin x) (Fin y) = Fin (rnd (x - y))"
| "fl_sub rnd _ _ = NaN"

fun fl_mul :: "(real \<Rightarrow> real) \<Rightarrow> fl \<Rightarrow> fl \<Rightarrow> fl" where
  "fl_mul rnd (Fin x) (Fin y) = Fin (rnd (x * y))"
| "fl_mul rnd _ _ = NaN"

subsection \<open>JSON values and the trade record\<close>

text \<open>
  A trade record is the dict built in \<open>process_signal\<close> and \<open>fake_signal\<close>: five string
  values under the keys time, asset, type, entry_price, sl_price, in insertion order.
\<close>

type_synonym trade_entry = "(string \<times> string) list"

datatype json = JStr string | JList "json list" | JDict "(string \<times> json) list"

definition json_of_entry :: "trade_entry \<Rightarrow> json" where
  "json_of_entry e = JDict (map (\<lambda>(k, v). (k, JStr v)) e)"

text \<open>\<open>list(d)\<close> of a deque of dicts: its elements; \<open>list(d)\<close> of a dict: its keys.\<close>

definition list_of_deque :: "trade_entry list \<Rightarrow> json" where
  "list_of_deque d = JList (map json_of_entry d)"

definition list_of_dict :: "trade_entry \<Rightarrow> json" where
  "list_of_dict e = JList (map (\<lambda>(k, v). JStr k) e)"

definition CONFIG_FILE :: string where
  "CONFIG_FILE = ''config.json''"

definition HISTORY_FILE :: string where
  "HISTORY_FILE = ''trade_history.json''"

subsection \<open>Configuration, accounts and the collaborators\<close>

record channel =
  ch_id :: nat
  ch_name :: string
  ch_active :: bool

record account =
  acc_id :: nat
  acc_token :: string
  acc_chat_id :: string
  acc_name :: string

record config =
  active_symbols :: "string list"
  entry_timeframe :: string
  higher_timeframes :: "string list"
  max_open_trades :: int
  rsi_period :: nat
  rsi_oversold :: real
  rsi_overbought :: real
  volume_avg_period :: nat
  volume_factor :: real
  ema_short_period :: nat
  ema_long_period :: nat
  ema_entry_period :: nat
  atr_period :: nat
  atr_stop_loss_factor :: real
  atr_take_profit_factor :: real
  telegram_channels :: "channel list"

text \<open>One OHLCV candle: a row of the frame built by \<open>get_market_data\<close> (columns t, o, h, l, c, v).\<close>

record candle =
  col_t :: int
  col_o :: fl
  col_h :: fl
  col_l :: fl
  col_c :: fl
  col_v :: fl

text \<open>
  What the program calls but does not define: the rounding of float64 arithmetic, the
  clock's formatting, the \<open>,.2f\<close> number format, the Telegram transport (\<open>Some e\<close>: the send raised \<open>e\<close>), the exchange
  (\<open>Inl e\<close>: the call raised \<open>e\<close>), and the indicator library (talib and the pandas rolling
  mean; each maps a column and a period to a column).
\<close>

record env =
  round64 :: "real \<Rightarrow> real"
  strftime :: "string \<Rightarrow> nat \<Rightarrow> string"
  fmt2 :: "fl \<Rightarrow> string"
  telegram_accounts :: "account list"
  bot_send :: "string \<Rightarrow> string \<Rightarrow> string \<Rightarrow> string option"
  fetch_ohlcv :: "string \<Rightarrow> string \<Rightarrow> nat \<Rightarrow> string + candle list"
  EMA :: "fl list \<Rightarrow> nat \<Rightarrow> fl list"
  RSI :: "fl list \<Rightarrow> nat \<Rightarrow> fl list"
  ATR :: "fl list \<Rightarrow> fl list \<Rightarrow> fl list \<Rightarrow> nat \<Rightarrow> fl list"
  rolling_mean :: "fl list \<Rightarrow> nat \<Rightarrow> fl list"

subsection \<open>The bot's state\<close>

text \<open>
  The module's globals: \<open>open_trades\<close>, the deque \<open>trade_history\<close> (newest first, at most 50),
  the two entries of \<open>bot_status\<close> that the core writes, the files written by \<open>save_json\<close>,
  and the log of Telegram send attempts (chat id, text, whether it succeeded).
\<close>

record bot =
  open_trades :: int
  trade_history :: "trade_entry list"
  last_check :: string
  last_error :: string
  files :: "string \<rightharpoonup> json"
  outbox :: "(string \<times> string \<times> bool) list"

section \<open>Persistence and the bounded history\<close>

definition save_json :: "string \<Rightarrow> json \<Rightarrow> bot \<Rightarrow> bot" where
  "save_json file_path data st = st\<lparr>files := (files st)(file_path \<mapsto> data)\<rparr>"

text \<open>
  \<open>deque(xs, maxlen=50)\<close> keeps the last 50 elements of \<open>xs\<close>; \<open>appendleft\<close> on a full
  deque drops the element at the right end.
\<close>

definition maxlen :: nat where
  "maxlen = 50"

definition deque :: "'a list \<Rightarrow> 'a list" where
  "deque xs = drop (length xs - maxlen) xs"

definition appendleft :: "'a \<Rightarrow> 'a list \<Rightarrow> 'a list" where
  "appendleft x d = take maxlen (x # d)"

section \<open>Notification\<close>

definition str_of_exn :: "string \<Rightarrow> string" where
  "str_of_exn e = e"

definition send_single_telegram_message :: "env \<Rightarrow> string \<Rightarrow> string \<Rightarrow> string \<Rightarrow> bot \<Rightarrow> bot" where
  "send_single_telegram_message ev token chat_id message st =
     (case bot_send ev token chat_id message of
        None \<Rightarrow> st\<lparr>outbox := outbox st @ [(chat_id, message, True)]\<rparr>
      | Some e \<Rightarrow> st\<lparr>outbox := outbox st @ [(chat_id, message, False)],
                     last_error := ''Failed to send to '' @ chat_id @ '': '' @ str_of_exn e\<rparr>)"

text \<open>The inner loop of \<open>send_telegram_message\<close>: the first account with the channel's id.\<close>

fun find_account :: "account list \<Rightarrow> nat \<Rightarrow> account option" where
  "find_account [] i = None"
| "find_account (a # as) i = (if acc_id a = i then Some a else find_account as i)"

fun tasks_for :: "account list \<Rightarrow> channel list \<Rightarrow> account list" where
  "tasks_for accs [] = []"
| "tasks_for accs (ch # chs) =
     (case find_account accs (ch_id ch) of
        None \<Rightarrow> tasks_for accs chs
      | Some a \<Rightarrow> a # tasks_for accs chs)"

text \<open>
  \<open>asyncio.gather(*tasks, return_exceptions=True)\<close> runs every task to its end before it
  returns. The tasks are run here in the order of the list; their interleaving can only
  change which failure is the one left in \<open>last_error\<close>.
\<close>

fun gather_sends :: "env \<Rightarrow> string \<Rightarrow> account list \<Rightarrow> bot \<Rightarrow> bot" where
  "gather_sends ev message [] st = st"
| "gather_sends ev message (a # as) st =
     gather_sends ev message as
       (send_single_telegram_message ev (acc_token a) (acc_chat_id a) message st)"

definition send_telegram_message :: "env \<Rightarrow> config \<Rightarrow> string \<Rightarrow> bot \<Rightarrow> bot" where
  "send_telegram_message ev cfg message st =
     (let active_channels_config = filter ch_active (telegram_channels cfg) in
      if active_channels_config = [] then st
      else gather_sends ev message (tasks_for (telegram_accounts ev) active_channels_config) st)"

section \<open>Recording a signal\<close>

definition upper_char :: "char \<Rightarrow> char" where
  "upper_char ch =
     (let n = (of_char ch :: nat) in if 97 \<le> n \<and> n \<le> 122 then char_of (n - 32) else ch)"

definition upper :: "string \<Rightarrow> string" where
  "upper s = map upper_char s"

text \<open>
  The first characters of the two messages, as the bytes the source file holds for them
  (lines 604 and 571), and the newline.
\<close>

definition siren :: string where
  "siren = [char_of (195::nat), char_of (176::nat), char_of (197::nat), char_of (184::nat),
            char_of (197::nat), char_of (161::nat), char_of (194::nat), char_of (168::nat)]"

definition test_tube :: string where
  "test_tube = [char_of (195::nat), char_of (176::nat), char_of (197::nat), char_of (184::nat),
                char_of (194::nat), char_of (167::nat), char_of (194::nat), char_of (170::nat)]"

definition nl :: string where
  "nl = [char_of (10::nat)]"

text \<open>Lines 589-595 of \<open>process_signal\<close>: the stop-loss and take-profit prices.\<close>

definition sl_tp :: "env \<Rightarrow> config \<Rightarrow> string \<Rightarrow> fl \<Rightarrow> fl \<Rightarrow> fl \<times> fl" where
  "sl_tp ev cfg signal_type entry_price atr_v =
     (let sl_factor = Fin (atr_stop_loss_factor cfg);
          tp_factor = Fin (atr_take_profit_factor cfg);
          rnd = round64 ev
      in if signal_type = ''Long''
         then (fl_sub rnd entry_price (fl_mul rnd atr_v sl_factor),
               fl_add rnd entry_price (fl_mul rnd atr_v tp_factor))
         else (fl_add rnd entry_price (fl_mul rnd atr_v sl_factor),
               fl_sub rnd entry_price (fl_mul rnd atr_v sl_factor)))"

definition signal_msg :: "env \<Rightarrow> string \<Rightarrow> string \<Rightarrow> fl \<Rightarrow> fl \<Rightarrow> fl \<Rightarrow> string" where
  "signal_msg ev symbol signal_type entry_price sl_price tp_price =
     siren @ '' <b>'' @ upper signal_type @ '' '' @ symbol @ ''</b>'' @ nl @ nl @
     ''<b>Entry:</b> $'' @ fmt2 ev entry_price @ nl @
     ''<b>Stop Loss:</b> $'' @ fmt2 ev sl_price @ nl @
     ''<b>Take Profit:</b> $'' @ fmt2 ev tp_price"

definition mk_entry :: "env \<Rightarrow> nat \<Rightarrow> string \<Rightarrow> string \<Rightarrow> fl \<Rightarrow> fl \<Rightarrow> trade_entry" where
  "mk_entry ev now symbol signal_type entry_price sl_price =
     [(''time'', strftime ev ''%Y-%m-%d %H:%M'' now), (''asset'', symbol),
      (''type'', signal_type), (''entry_price'', fmt2 ev entry_price),
      (''sl_price'', fmt2 ev sl_price)]"

definition process_signal :: "env \<Rightarrow> config \<Rightarrow> nat \<Rightarrow> string \<Rightarrow> string \<Rightarrow> fl \<Rightarrow> fl \<Rightarrow> bot \<Rightarrow> bot" where
  "process_signal ev cfg now symbol signal_type entry_price atr_v st =
     (let st1 = st\<lparr>open_trades := open_trades st + 1\<rparr>;
          (sl_price, tp_price) = sl_tp ev cfg signal_type entry_price atr_v;
          trade_entry = mk_entry ev now symbol signal_type entry_price sl_price;
          st2 = st1\<lparr>trade_history := appendleft trade_entry (trade_history st1)\<rparr>;
          st3 = save_json HISTORY_FILE (list_of_dict trade_entry) st2;
          msg = signal_msg ev symbol signal_type entry_price sl_price tp_price
      in send_telegram_message ev cfg msg st3)"

text \<open>
  \<open>fake_signal\<close>: \<open>price\<close> is the ticker's last price, or the random price of the fallback
  when the ticker call raised. The literal \<open>0.01\<close> is the float nearest to 1/100.
\<close>

definition fake_signal :: "env \<Rightarrow> config \<Rightarrow> nat \<Rightarrow> fl \<Rightarrow> bot \<Rightarrow> bot" where
  "fake_signal ev cfg now price st =
     (let rnd = round64 ev;
          atr_v = fl_mul rnd price (Fin (rnd (1 / 100)));
          sl = fl_sub rnd price (fl_mul rnd atr_v (Fin (atr_stop_loss_factor cfg)));
          entry = mk_entry ev now ''BTC/USDT'' ''Long'' price sl;
          st1 = st\<lparr>trade_history := appendleft entry (trade_history st)\<rparr>;
          st2 = save_json HISTORY_FILE (list_of_deque (trade_history st1)) st1
      in send_telegram_message ev cfg
           (test_tube @ '' FAKE SIGNAL: See history for details.'') st2)"

section \<open>Indicators\<close>

text \<open>A row of the frame after \<open>calculate_indicators\<close> has added its six columns.\<close>

record row = candle +
  ema_s :: fl
  ema_l :: fl
  ema_e :: fl
  rsi :: fl
  atr :: fl
  vol_avg :: fl

text \<open>
  Assigning a column aligns it with the frame's index: a row the column has no value for
  holds NaN.
\<close>

definition col_at :: "fl list \<Rightarrow> nat \<Rightarrow> fl" where
  "col_at ys i = (if i < length ys then ys ! i else NaN)"

definition calculate_indicators :: "env \<Rightarrow> candle list \<Rightarrow> config \<Rightarrow> row list" where
  "calculate_indicators ev df cfg =
     (let cs = map col_c df;
          e_s = EMA ev cs (ema_short_period cfg);
          e_l = EMA ev cs (ema_long_period cfg);
          e_e = EMA ev cs (ema_entry_period cfg);
          r = RSI ev cs (rsi_period cfg);
          a = ATR ev (map col_h df) (map col_l df) cs (atr_period cfg);
          va = rolling_mean ev (map col_v df) (volume_avg_period cfg)
      in map (\<lambda>i. \<lparr>col_t = col_t (df ! i), col_o = col_o (df ! i), col_h = col_h (df ! i),
                    col_l = col_l (df ! i), col_c = col_c (df ! i), col_v = col_v (df ! i),
                    ema_s = col_at e_s i, ema_l = col_at e_l i, ema_e = col_at e_e i,
                    rsi = col_at r i, atr = col_at a i, vol_avg = col_at va i\<rparr>)
           [0..<length df])"

text \<open>\<open>df.iloc[i]\<close>: a negative position counts from the end; out of range raises IndexError.\<close>

definition iloc :: "'a list \<Rightarrow> int \<Rightarrow> string + 'a" where
  "iloc df i =
     (let n = int (length df); j = (if i < 0 then n + i else i)
      in if 0 \<le> j \<and> j < n then Inr (df ! nat j)
         else Inl ''single positional indexer is out-of-bounds'')"

section \<open>The scan pass\<close>

definition get_market_data :: "env \<Rightarrow> string \<Rightarrow> string \<Rightarrow> string + candle list" where
  "get_market_data ev s t = fetch_ohlcv ev s t 201"

text \<open>\<open>asyncio.gather\<close> without \<open>return_exceptions\<close>: an exception of a fetch is raised.\<close>

fun gather :: "(string + 'a) list \<Rightarrow> string + 'a list" where
  "gather [] = Inr []"
| "gather (r # rs) =
     (case r of
        Inl e \<Rightarrow> Inl e
      | Inr x \<Rightarrow> (case gather rs of Inl e \<Rightarrow> Inl e | Inr xs \<Rightarrow> Inr (x # xs)))"

text \<open>Lines 621-626: the loop over the higher-timeframe frames, with its two counters.\<close>

fun alignment :: "env \<Rightarrow> config \<Rightarrow> candle list list \<Rightarrow> nat \<times> nat \<Rightarrow> nat \<times> nat" where
  "alignment ev cfg [] (long_align, short_align) = (long_align, short_align)"
| "alignment ev cfg (df_htf # rest) (long_align, short_align) =
     (if df_htf = [] then alignment ev cfg rest (long_align, short_align)
      else
        let df = calculate_indicators ev df_htf cfg;
            long_align' = (if fl_gt (ema_s (last df)) (ema_l (last df))
                           then long_align + 1 else long_align);
            short_align' = (if fl_lt (ema_s (last df)) (ema_l (last df))
                            then short_align + 1 else short_align)
        in alignment ev cfg rest (long_align', short_align'))"

datatype flow = Continue | Break

definition on_error :: "string \<Rightarrow> bot \<Rightarrow> bot" where
  "on_error e st = st\<lparr>last_error := ''Signal Check Error: '' @ e\<rparr>"

text \<open>Lines 633-634 and 639-640: the two entry conditions, as written.\<close>

definition long_cond :: "env \<Rightarrow> config \<Rightarrow> nat \<Rightarrow> row \<Rightarrow> row \<Rightarrow> bool" where
  "long_cond ev cfg long_align prev lst =
     (long_align \<ge> 2 \<and>
      (fl_lt (rsi prev) (Fin (rsi_oversold cfg)) \<and> fl_gt (rsi lst) (Fin (rsi_oversold cfg)) \<and>
       fl_gt (col_v lst) (fl_mul (round64 ev) (Fin (volume_factor cfg)) (vol_avg lst)) \<and>
       fl_gt (col_c lst) (ema_e lst)))"

definition short_cond :: "env \<Rightarrow> config \<Rightarrow> nat \<Rightarrow> row \<Rightarrow> row \<Rightarrow> bool" where
  "short_cond ev cfg short_align prev lst =
     (short_align \<ge> 2 \<and>
      (fl_gt (rsi prev) (Fin (rsi_overbought cfg)) \<and> fl_lt (rsi lst) (Fin (rsi_overbought cfg)) \<and>
       fl_gt (col_v lst) (fl_mul (round64 ev) (Fin (volume_factor cfg)) (vol_avg lst)) \<and>
       fl_lt (col_c lst) (ema_e lst)))"

definition cap_reached :: "config \<Rightarrow> bot \<Rightarrow> bool" where
  "cap_reached cfg st = (open_trades st \<ge> max_open_trades cfg)"

text \<open>
  Lines 633-642, once \<open>last\<close> and \<open>prev\<close> are at hand. \<open>entry_branch\<close> is the control
  flow around the two tests, given their values: the Long test first, with \<open>continue\<close> or
  \<open>break\<close> after a Long signal, and the Short test only when the Long test failed. The
  tests are comparisons of floats and have no effect, so \<open>evaluate_entry\<close> passes their
  values.
\<close>

definition entry_branch ::
    "env \<Rightarrow> config \<Rightarrow> nat \<Rightarrow> string \<Rightarrow> row \<Rightarrow> bool \<Rightarrow> bool \<Rightarrow> bot \<Rightarrow> flow \<times> bot" where
  "entry_branch ev cfg now symbol lst long_ok short_ok st =
     (if long_ok then
        let st' = process_signal ev cfg now symbol ''Long'' (col_c lst) (atr lst) st
        in (if cap_reached cfg st' then Break else Continue, st')
      else if short_ok then
        let st' = process_signal ev cfg now symbol ''Short'' (col_c lst) (atr lst) st
        in (if cap_reached cfg st' then Break else Continue, st')
      else (Continue, st))"

definition evaluate_entry ::
    "env \<Rightarrow> config \<Rightarrow> nat \<Rightarrow> string \<Rightarrow> nat \<times> nat \<Rightarrow> row \<Rightarrow> row \<Rightarrow> bot \<Rightarrow> flow \<times> bot" where
  "evaluate_entry ev cfg now symbol al prev lst st =
     entry_branch ev cfg now symbol lst
       (long_cond ev cfg (fst al) prev lst) (short_cond ev cfg (snd al) prev lst) st"

text \<open>
  The body of the loop over the symbols (lines 617-647). An exception raised inside the
  \<open>try\<close> is caught, recorded in \<open>last_error\<close>, and the loop goes on with the next symbol.
\<close>

definition check_symbol :: "env \<Rightarrow> config \<Rightarrow> nat \<Rightarrow> string \<Rightarrow> bot \<Rightarrow> flow \<times> bot" where
  "check_symbol ev cfg now symbol st =
     (case gather (map (get_market_data ev symbol) (higher_timeframes cfg)) of
        Inl e \<Rightarrow> (Continue, on_error e st)
      | Inr htf_data \<Rightarrow>
          let al = alignment ev cfg htf_data (0, 0) in
          (case get_market_data ev symbol (entry_timeframe cfg) of
             Inl e \<Rightarrow> (Continue, on_error e st)
           | Inr df_5m \<Rightarrow>
               if df_5m = [] then (Continue, st)
               else
                 let df = calculate_indicators ev df_5m cfg in
                 (case iloc df (- 1) of
                    Inl e \<Rightarrow> (Continue, on_error e st)
                  | Inr lst \<Rightarrow>
                      (case iloc df (- 2) of
                         Inl e \<Rightarrow> (Continue, on_error e st)
                       | Inr prev \<Rightarrow> evaluate_entry ev cfg now symbol al prev lst st))))"


text \<open>Line 613: the first statement of a pass.\<close>

definition stamp_last_check :: "env \<Rightarrow> nat \<Rightarrow> bot \<Rightarrow> bot" where
  "stamp_last_check ev now st = st\<lparr>last_check := strftime ev ''%Y-%m-%d %H:%M:%S'' now\<rparr>"


section \<open>Triggers and the event loop\<close>

text \<open>
  \<open>force_check\<close> hands a new \<open>check_signals\<close> coroutine to the event loop with
  \<open>asyncio.create_task\<close> and returns. The loop later runs the task's first step, which is
  everything up to its first \<open>await\<close>: line 613, the test of line 614 and, unless the
  pass ends there or has no symbol, the entry into the loop where it suspends on the first
  fetch. A task is created, suspended inside its pass, or finished.
\<close>

datatype task = Created | Suspended | Finished

record event_loop =
  bot_of :: bot
  tasks :: "task list"

definition force_check :: "event_loop \<Rightarrow> event_loop" where
  "force_check lp = lp\<lparr>tasks := tasks lp @ [Created]\<rparr>"

definition start_task :: "env \<Rightarrow> config \<Rightarrow> nat \<Rightarrow> nat \<Rightarrow> event_loop \<Rightarrow> event_loop" where
  "start_task ev cfg now i lp =
     (if i < length (tasks lp) \<and> tasks lp ! i = Created then
        let st1 = stamp_last_check ev now (bot_of lp)
        in lp\<lparr>bot_of := st1,
              tasks := (tasks lp)[i := (if cap_reached cfg st1 \<or> active_symbols cfg = []
                                        then Finished else Suspended)]\<rparr>
      else lp)"

definition running :: "event_loop \<Rightarrow> nat" where
  "running lp = length (filter (\<lambda>t. t = Suspended) (tasks lp))"

section \<open>The default configuration and a recorded sequence of signals\<close>

text \<open>\<open>DEFAULT_CONFIG\<close>; its channel list is built from the accounts of the environment.\<close>

definition DEFAULT_CONFIG :: "channel list \<Rightarrow> config" where
  "DEFAULT_CONFIG chs =
     \<lparr>active_symbols = [''BTC/USDT'', ''ETH/USDT''], entry_timeframe = ''5m'',
      higher_timeframes = [''30m'', ''1h'', ''4h''], max_open_trades = 2,
      rsi_period = 14, rsi_oversold = 30, rsi_overbought = 70,
      volume_avg_period = 20, volume_factor = 3 / 2,
      ema_short_period = 50, ema_long_period = 200, ema_entry_period = 20,
      atr_period = 14, atr_stop_loss_factor = 1, atr_take_profit_factor = 2,
      telegram_channels = chs\<rparr>"

text \<open>
  The records of the history come from two places: a detected signal (\<open>process_signal\<close>)
  and the test hook (\<open>fake_signal\<close>). \<open>record_all\<close> applies a sequence of them in order;
  \<open>entry_of\<close> is the record each one builds.
\<close>

datatype recorded = Detected nat string string fl fl | Faked nat fl

fun record_one :: "env \<Rightarrow> config \<Rightarrow> recorded \<Rightarrow> bot \<Rightarrow> bot" where
  "record_one ev cfg (Detected now symbol signal_type entry_price atr_v) st =
     process_signal ev cfg now symbol signal_type entry_price atr_v st"
| "record_one ev cfg (Faked now price) st = fake_signal ev cfg now price st"

fun record_all :: "env \<Rightarrow> config \<Rightarrow> recorded list \<Rightarrow> bot \<Rightarrow> bot" where
  "record_all ev cfg [] st = st"
| "record_all ev cfg (r # rs) st = record_all ev cfg rs (record_one ev cfg r st)"

fun entry_of :: "env \<Rightarrow> config \<Rightarrow> recorded \<Rightarrow> trade_entry" where
  "entry_of ev cfg (Detected now symbol signal_type entry_price atr_v) =
     mk_entry ev now symbol signal_type entry_price
       (fst (sl_tp ev cfg signal_type entry_price atr_v))"
| "entry_of ev cfg (Faked now price) =
     mk_entry ev now ''BTC/USDT'' ''Long'' price
       (fl_sub (round64 ev) price
          (fl_mul (round64 ev) (fl_mul (round64 ev) price (Fin (round64 ev (1 / 100))))
             (Fin (atr_stop_loss_factor cfg))))"

section \<open>The specification's formulas\<close>

text \<open>The stop and target prices as the specification gives them (TradeRecorder).\<close>

definition spec_sl_tp :: "env \<Rightarrow> config \<Rightarrow> string \<Rightarrow> fl \<Rightarrow> fl \<Rightarrow> fl \<times> fl" where
  "spec_sl_tp ev cfg direction entry atr_v =
     (let rnd = round64 ev
      in if direction = ''Long''
         then (fl_sub rnd entry (fl_mul rnd atr_v (Fin (atr_stop_loss_factor cfg))),
               fl_add rnd entry (fl_mul rnd atr_v (Fin (atr_take_profit_factor cfg))))
         else (fl_add rnd entry (fl_mul rnd atr_v (Fin (atr_stop_loss_factor cfg))),
               fl_sub rnd entry (fl_mul rnd atr_v (Fin (atr_take_profit_factor cfg)))))"

text \<open>
  The entry predicates as the specification gives them (SignalDetector), with the
  non-strict comparison of the latest RSI against the threshold.
\<close>

fun fl_ge :: "fl \<Rightarrow> fl \<Rightarrow> bool" where
  "fl_ge (Fin x) (Fin y) = (x \<ge> y)"
| "fl_ge _ _ = False"

fun fl_le :: "fl \<Rightarrow> fl \<Rightarrow> bool" where
  "fl_le (Fin x) (Fin y) = (x \<le> y)"
| "fl_le _ _ = False"

definition spec_long_pred :: "env \<Rightarrow> config \<Rightarrow> nat \<times> nat \<Rightarrow> row \<Rightarrow> row \<Rightarrow> bool" where
  "spec_long_pred ev cfg al prev lst =
     (fst al \<ge> 2 \<and> fl_lt (rsi prev) (Fin (rsi_oversold cfg)) \<and>
      fl_ge (rsi lst) (Fin (rsi_oversold cfg)) \<and>
      fl_gt (col_v lst) (fl_mul (round64 ev) (Fin (volume_factor cfg)) (vol_avg lst)) \<and>
      fl_gt (col_c lst) (ema_e lst))"

definition spec_short_pred :: "env \<Rightarrow> config \<Rightarrow> nat \<times> nat \<Rightarrow> row \<Rightarrow> row \<Rightarrow> bool" where
  "spec_short_pred ev cfg al prev lst =
     (snd al \<ge> 2 \<and> fl_gt (rsi prev) (Fin (rsi_overbought cfg)) \<and>
      fl_le (rsi lst) (Fin (rsi_overbought cfg)) \<and>
      fl_gt (col_v lst) (fl_mul (round64 ev) (Fin (volume_factor cfg)) (vol_avg lst)) \<and>
      fl_lt (col_c lst) (ema_e lst))"


section \<open>A reference indicator library\<close>

text \<open>
  Modelled from the spec: talib and the pandas rolling mean are libraries outside the
  repository. These are the indicators as the specification describes them
  (IndicatorEngine): the exponential moving average with multiplier \<open>2 / (period + 1)\<close>
  seeded by the simple average of the first \<open>period\<close> closes, Wilder's smoothing for RSI
  and ATR, a simple rolling mean; the values of the warm-up are NaN. Their arithmetic is
  rounded by the function given. The scan pass takes its library from the environment,
  and only the concrete runs below use this one.
\<close>

fun fl_div :: "(real \<Rightarrow> real) \<Rightarrow> fl \<Rightarrow> fl \<Rightarrow> fl" where
  "fl_div rnd (Fin x) (Fin y) = (if y = 0 then NaN else Fin (rnd (x / y)))"
| "fl_div rnd _ _ = NaN"

fun fl_abs :: "fl \<Rightarrow> fl" where
  "fl_abs (Fin x) = Fin \<bar>x\<bar>"
| "fl_abs NaN = NaN"

fun fl_max :: "fl \<Rightarrow> fl \<Rightarrow> fl" where
  "fl_max (Fin x) (Fin y) = Fin (max x y)"
| "fl_max _ _ = NaN"

fun fl_sum :: "(real \<Rightarrow> real) \<Rightarrow> fl list \<Rightarrow> fl" where
  "fl_sum rnd [] = Fin 0"
| "fl_sum rnd (x # xs) = fl_add rnd x (fl_sum rnd xs)"

definition fl_mean :: "(real \<Rightarrow> real) \<Rightarrow> fl list \<Rightarrow> fl" where
  "fl_mean rnd xs = fl_div rnd (fl_sum rnd xs) (Fin (real (length xs)))"

fun ema_run :: "(real \<Rightarrow> real) \<Rightarrow> fl \<Rightarrow> fl \<Rightarrow> fl list \<Rightarrow> fl list" where
  "ema_run rnd k prev [] = []"
| "ema_run rnd k prev (x # xs) =
     (let e = fl_add rnd (fl_mul rnd k x) (fl_mul rnd (fl_sub rnd (Fin 1) k) prev)
      in e # ema_run rnd k e xs)"

definition ta_EMA :: "(real \<Rightarrow> real) \<Rightarrow> fl list \<Rightarrow> nat \<Rightarrow> fl list" where
  "ta_EMA rnd xs p =
     (if p = 0 \<or> length xs < p then map (\<lambda>x. NaN) xs
      else let seed = fl_mean rnd (take p xs)
           in replicate (p - 1) NaN @
              seed # ema_run rnd (fl_div rnd (Fin 2) (Fin (real p + 1))) seed (drop p xs))"

fun wilder_run :: "(real \<Rightarrow> real) \<Rightarrow> nat \<Rightarrow> fl \<Rightarrow> fl list \<Rightarrow> fl list" where
  "wilder_run rnd p prev [] = []"
| "wilder_run rnd p prev (x # xs) =
     (let a = fl_div rnd (fl_add rnd (fl_mul rnd prev (Fin (real p - 1))) x) (Fin (real p))
      in a # wilder_run rnd p a xs)"

definition wilder :: "(real \<Rightarrow> real) \<Rightarrow> nat \<Rightarrow> fl list \<Rightarrow> fl list" where
  "wilder rnd p xs =
     (let seed = fl_mean rnd (take p xs) in seed # wilder_run rnd p seed (drop p xs))"

fun diffs :: "(real \<Rightarrow> real) \<Rightarrow> fl list \<Rightarrow> fl list" where
  "diffs rnd (x # y # xs) = fl_sub rnd y x # diffs rnd (y # xs)"
| "diffs rnd _ = []"

definition gain :: "fl \<Rightarrow> fl" where
  "gain d = (if fl_gt d (Fin 0) then d else Fin 0)"

definition loss :: "(real \<Rightarrow> real) \<Rightarrow> fl \<Rightarrow> fl" where
  "loss rnd d = (if fl_lt d (Fin 0) then fl_sub rnd (Fin 0) d else Fin 0)"

definition rsi_of :: "(real \<Rightarrow> real) \<Rightarrow> fl \<Rightarrow> fl \<Rightarrow> fl" where
  "rsi_of rnd g l =
     (if fl_add rnd g l = Fin 0 then Fin 0
      else fl_div rnd (fl_mul rnd (Fin 100) g) (fl_add rnd g l))"

definition ta_RSI :: "(real \<Rightarrow> real) \<Rightarrow> fl list \<Rightarrow> nat \<Rightarrow> fl list" where
  "ta_RSI rnd xs p =
     (if p = 0 \<or> length xs \<le> p then map (\<lambda>x. NaN) xs
      else let d = diffs rnd xs
           in replicate p NaN @
              map2 (rsi_of rnd) (wilder rnd p (map gain d)) (wilder rnd p (map (loss rnd) d)))"

fun true_ranges :: "(real \<Rightarrow> real) \<Rightarrow> fl list \<Rightarrow> fl list \<Rightarrow> fl list \<Rightarrow> fl list" where
  "true_ranges rnd (h0 # h1 # hs) (l0 # l1 # ls) (c0 # c1 # cs) =
     fl_max (fl_sub rnd h1 l1)
       (fl_max (fl_abs (fl_sub rnd h1 c0)) (fl_abs (fl_sub rnd l1 c0)))
       # true_ranges rnd (h1 # hs) (l1 # ls) (c1 # cs)"
| "true_ranges rnd _ _ _ = []"

definition ta_ATR :: "(real \<Rightarrow> real) \<Rightarrow> fl list \<Rightarrow> fl list \<Rightarrow> fl list \<Rightarrow> nat \<Rightarrow> fl list" where
  "ta_ATR rnd hs ls cs p =
     (if p = 0 \<or> length cs \<le> p then map (\<lambda>x. NaN) cs
      else replicate p NaN @ wilder rnd p (true_ranges rnd hs ls cs))"

definition ta_rolling_mean :: "(real \<Rightarrow> real) \<Rightarrow> fl list \<Rightarrow> nat \<Rightarrow> fl list" where
  "ta_rolling_mean rnd xs p =
     map (\<lambda>i. if p = 0 \<or> i + 1 < p then NaN else fl_mean rnd (take p (drop (i + 1 - p) xs)))
       [0..<length xs]"

section \<open>Concrete runs\<close>

text \<open>
  An environment for the concrete runs: the arithmetic is exact, time \<open>n\<close> is minute \<open>n\<close>
  of a fixed day, numbers print as a fixed word, every send succeeds, the indicators are
  the reference ones, and the exchange and the accounts are given.
\<close>

definition test_strftime :: "string \<Rightarrow> nat \<Rightarrow> string" where
  "test_strftime f now =
     ''2024-01-01 00:0'' @ [char_of (48 + now mod 10)] @
     (if f = ''%Y-%m-%d %H:%M:%S'' then '':00'' else [])"

definition test_env :: "(string \<Rightarrow> string \<Rightarrow> string + candle list) \<Rightarrow> account list \<Rightarrow> env" where
  "test_env fetch accs =
     \<lparr>round64 = (\<lambda>x. x),
      strftime = test_strftime,
      fmt2 = (\<lambda>x. case x of NaN \<Rightarrow> ''nan'' | Fin r \<Rightarrow> ''0.00''),
      telegram_accounts = accs,
      bot_send = (\<lambda>token chat_id text. None),
      fetch_ohlcv = (\<lambda>s t l. fetch s t),
      EMA = ta_EMA (\<lambda>x. x), RSI = ta_RSI (\<lambda>x. x), ATR = ta_ATR (\<lambda>x. x),
      rolling_mean = ta_rolling_mean (\<lambda>x. x)\<rparr>"

text \<open>The state at start-up, with no history file.\<close>

definition st0 :: bot where
  "st0 = \<lparr>open_trades = 0, trade_history = deque [], last_check = ''Never'',
          last_error = ''None'', files = Map.empty, outbox = []\<rparr>"

definition no_data :: "string \<Rightarrow> string \<Rightarrow> string + candle list" where
  "no_data s t = Inr []"


text \<open>
  Two rows at the boundary of the Long rule under the default configuration: the RSI goes
  from 28 to exactly 30, the volume is twice its average, the close is above the entry EMA.
\<close>

definition prev30 :: row where
  "prev30 = \<lparr>col_t = 0, col_o = Fin 100, col_h = Fin 100, col_l = Fin 100, col_c = Fin 100,
             col_v = Fin 100, ema_s = Fin 100, ema_l = Fin 100, ema_e = Fin 100,
             rsi = Fin 28, atr = Fin 2, vol_avg = Fin 100\<rparr>"

definition last30 :: row where
  "last30 = \<lparr>col_t = 1, col_o = Fin 100, col_h = Fin 101, col_l = Fin 100, col_c = Fin 101,
             col_v = Fin 200, ema_s = Fin 100, ema_l = Fin 100, ema_e = Fin 100,
             rsi = Fin 30, atr = Fin 2, vol_avg = Fin 100\<rparr>"

text \<open>The same latest row with the RSI at 32: the Long rule fires.\<close>

definition last32 :: row where
  "last32 = last30\<lparr>rsi := Fin 32\<rparr>"






text \<open>An event loop in which one pass is suspended inside its loop over the symbols.\<close>

definition busy_loop :: event_loop where
  "busy_loop = \<lparr>bot_of = st0\<lparr>last_check := ''2024-01-01 00:00:00''\<rparr>, tasks = [Suspended]\<rparr>"

text \<open>
  The classes of a higher-timeframe frame in the alignment count: by the latest row of
  its indicators, the short EMA is above the long EMA, below it, or neither (no candle, a
  NaN, or equal values).
\<close>

definition latest :: "env \<Rightarrow> config \<Rightarrow> candle list \<Rightarrow> row" where
  "latest ev cfg df = last (calculate_indicators ev df cfg)"

definition bullish :: "env \<Rightarrow> config \<Rightarrow> candle list \<Rightarrow> bool" where
  "bullish ev cfg df = (df \<noteq> [] \<and> fl_gt (ema_s (latest ev cfg df)) (ema_l (latest ev cfg df)))"

definition bearish :: "env \<Rightarrow> config \<Rightarrow> candle list \<Rightarrow> bool" where
  "bearish ev cfg df = (df \<noteq> [] \<and> fl_lt (ema_s (latest ev cfg df)) (ema_l (latest ev cfg df)))"

definition undecided :: "env \<Rightarrow> config \<Rightarrow> candle list \<Rightarrow> bool" where
  "undecided ev cfg df =
     (df = [] \<or> ema_s (latest ev cfg df) = NaN \<or> ema_l (latest ev cfg df) = NaN \<or>
      ema_s (latest ev cfg df) = ema_l (latest ev cfg df))"




section \<open>Frame lemmas\<close>

lemma send_single_frame:
  "open_trades (send_single_telegram_message ev tok ch m st) = open_trades st"
  "trade_history (send_single_telegram_message ev tok ch m st) = trade_history st"
  "files (send_single_telegram_message ev tok ch m st) = files st"
  "last_check (send_single_telegram_message ev tok ch m st) = last_check st"
  by (simp_all add: send_single_telegram_message_def split: option.splits)

lemma gather_sends_frame:
  "open_trades (gather_sends ev m as st) = open_trades st"
  "trade_history (gather_sends ev m as st) = trade_history st"
  "files (gather_sends ev m as st) = files st"
  "last_check (gather_sends ev m as st) = last_check st"
  by (induction as arbitrary: st) (simp_all add: send_single_frame)

lemma send_telegram_frame:
  "open_trades (send_telegram_message ev cfg m st) = open_trades st"
  "trade_history (send_telegram_message ev cfg m st) = trade_history st"
  "files (send_telegram_message ev cfg m st) = files st"
  "last_check (send_telegram_message ev cfg m st) = last_check st"
  by (simp_all add: send_telegram_message_def Let_def gather_sends_frame)

lemma process_signal_history:
  "trade_history (process_signal ev cfg now symbol ty p a st) =
     appendleft (mk_entry ev now symbol ty p (fst (sl_tp ev cfg ty p a))) (trade_history st)"
  by (simp add: process_signal_def Let_def send_telegram_frame save_json_def split: prod.splits)

lemma process_signal_open_trades:
  "open_trades (process_signal ev cfg now symbol ty p a st) = open_trades st + 1"
  by (simp add: process_signal_def Let_def send_telegram_frame save_json_def split: prod.splits)

lemma process_signal_files:
  "files (process_signal ev cfg now symbol ty p a st) =
     (files st)(HISTORY_FILE \<mapsto> list_of_dict (mk_entry ev now symbol ty p (fst (sl_tp ev cfg ty p a))))"
  by (simp add: process_signal_def Let_def send_telegram_frame save_json_def split: prod.splits)

lemma fake_signal_history:
  "trade_history (fake_signal ev cfg now price st) =
     appendleft (entry_of ev cfg (Faked now price)) (trade_history st)"
  by (simp add: fake_signal_def Let_def send_telegram_frame save_json_def)

lemma fake_signal_open_trades:
  "open_trades (fake_signal ev cfg now price st) = open_trades st"
  by (simp add: fake_signal_def Let_def send_telegram_frame save_json_def)

lemma fake_signal_files:
  "files (fake_signal ev cfg now price st) =
     (files st)(HISTORY_FILE \<mapsto> list_of_deque (trade_history (fake_signal ev cfg now price st)))"
  by (simp add: fake_signal_def Let_def send_telegram_frame save_json_def)

lemma record_one_history:
  "trade_history (record_one ev cfg r st) = appendleft (entry_of ev cfg r) (trade_history st)"
  by (cases r) (simp_all add: process_signal_history fake_signal_history)

lemma take_appendleft: "take maxlen (x # take maxlen xs) = take maxlen (x # xs)"
  by (simp add: maxlen_def take_Cons')

lemma record_all_history:
  "trade_history (record_all ev cfg rs st) =
     (if rs = [] then trade_history st
      else take maxlen (rev (map (entry_of ev cfg) rs) @ trade_history st))"
proof (induction rs arbitrary: st)
  case Nil
  show ?case by simp
next
  case (Cons r rs)
  show ?case
  proof (cases "rs = []")
    case True
    then show ?thesis by (simp add: record_one_history appendleft_def)
  next
    case False
    have "take maxlen (rev (map (entry_of ev cfg) rs) @ take maxlen (entry_of ev cfg r # trade_history st))
        = take maxlen (rev (map (entry_of ev cfg) rs) @ entry_of ev cfg r # trade_history st)"
      by (simp add: min_def)
    with False show ?thesis
      by (simp add: Cons.IH record_one_history appendleft_def)
  qed
qed

lemma length_deque: "length (deque xs) \<le> maxlen"
  by (simp add: deque_def)

section \<open>Alignment\<close>

lemma fl_trichotomy:
  "(if fl_gt a b then 1 else 0) + (if fl_lt a b then 1 else 0) +
   (if a = NaN \<or> b = NaN \<or> a = b then 1 else 0) = (1::nat)"
  by (cases a; cases b) auto

lemma alignment_acc:
  "alignment ev cfg htf (la, sa) =
     (la + length (filter (bullish ev cfg) htf), sa + length (filter (bearish ev cfg) htf))"
  by (induction htf arbitrary: la sa) (simp_all add: bullish_def bearish_def latest_def Let_def)

lemma three_classes:
  "length (filter (bullish ev cfg) htf) + length (filter (bearish ev cfg) htf) +
   length (filter (undecided ev cfg) htf) = length htf"
proof (induction htf)
  case Nil
  show ?case by simp
next
  case (Cons df htf)
  have one: "(if bullish ev cfg df then 1 else 0) + (if bearish ev cfg df then 1 else 0) +
             (if undecided ev cfg df then 1 else 0) = (1::nat)"
    using fl_trichotomy [of "ema_s (latest ev cfg df)" "ema_l (latest ev cfg df)"]
    by (cases "df = []") (simp_all add: bullish_def bearish_def undecided_def)
  have "length (filter (bullish ev cfg) (df # htf)) + length (filter (bearish ev cfg) (df # htf)) +
        length (filter (undecided ev cfg) (df # htf)) =
        ((if bullish ev cfg df then 1 else 0) + (if bearish ev cfg df then 1 else 0) +
         (if undecided ev cfg df then 1 else 0)) +
        (length (filter (bullish ev cfg) htf) + length (filter (bearish ev cfg) htf) +
         length (filter (undecided ev cfg) htf))"
    by simp
  with one Cons.IH show ?case by simp
qed

text \<open>
  C9: the two alignment counters are the numbers of frames whose latest short EMA is
  strictly above, respectively strictly below, the latest long EMA; every frame is in
  exactly one of the three classes (above, below, neither: empty, NaN or equal), so the
  two counters together never exceed the number of higher timeframes.
\<close>
theorem alignment_counts:
  "alignment ev cfg htf_data (0, 0) =
     (length (filter (bullish ev cfg) htf_data), length (filter (bearish ev cfg) htf_data)) \<and>
   length (filter (bullish ev cfg) htf_data) + length (filter (bearish ev cfg) htf_data) +
     length (filter (undecided ev cfg) htf_data) = length htf_data \<and>
   fst (alignment ev cfg htf_data (0, 0)) + snd (alignment ev cfg htf_data (0, 0))
     \<le> length htf_data"
proof -
  have a: "alignment ev cfg htf_data (0, 0) =
     (length (filter (bullish ev cfg) htf_data), length (filter (bearish ev cfg) htf_data))"
    by (simp add: alignment_acc)
  have b: "length (filter (bullish ev cfg) htf_data) + length (filter (bearish ev cfg) htf_data) +
     length (filter (undecided ev cfg) htf_data) = length htf_data"
    by (rule three_classes)
  from a b show ?thesis by simp
qed

section \<open>Dispatch, recording and the entry rules\<close>



lemma appendleft_Cons: "appendleft x d = x # take (maxlen - 1) d"
  by (simp add: appendleft_def maxlen_def)

lemma process_signal_neq: "process_signal ev cfg now symbol ty p a st \<noteq> st"
proof
  assume "process_signal ev cfg now symbol ty p a st = st"
  then have "open_trades (process_signal ev cfg now symbol ty p a st) = open_trades st"
    by simp
  then show False by (simp add: process_signal_open_trades)
qed

lemma process_long_neq_short:
  "process_signal ev cfg now symbol ''Long'' p a st \<noteq> process_signal ev cfg now symbol ''Short'' p a st"
proof
  assume "process_signal ev cfg now symbol ''Long'' p a st = process_signal ev cfg now symbol ''Short'' p a st"
  then have "trade_history (process_signal ev cfg now symbol ''Long'' p a st) =
             trade_history (process_signal ev cfg now symbol ''Short'' p a st)"
    by simp
  then show False
    by (simp add: process_signal_history appendleft_Cons mk_entry_def)
qed

lemma conds_exclusive: "\<not> (long_cond ev cfg la prev lst \<and> short_cond ev cfg sa prev lst)"
  by (cases "col_c lst"; cases "ema_e lst") (auto simp: long_cond_def short_cond_def)

lemma sl_tp_agreement:
  "fst (sl_tp ev cfg signal_type entry_price atr_v) = fst (spec_sl_tp ev cfg signal_type entry_price atr_v)"
  "sl_tp ev cfg ''Long'' entry_price atr_v = spec_sl_tp ev cfg ''Long'' entry_price atr_v"
  by (simp_all add: sl_tp_def spec_sl_tp_def Let_def)

text \<open>
  C1: the stop and target prices of a signal follow the specification's formulas. For a
  Short signal the code's target is the entry price minus the ATR times the stop-loss
  factor, whatever the rounding. At entry 100 and ATR 2 under the default factors (stop
  1.0, target 2.0), where the arithmetic of the floats is exact, the code's target is 98
  and the formula gives 96.
\<close>
theorem short_take_profit_eval:
  "snd (sl_tp ev cfg ''Short'' entry_price atr_v) =
     fl_sub (round64 ev) entry_price
       (fl_mul (round64 ev) atr_v (Fin (atr_stop_loss_factor cfg))) \<and>
   sl_tp (test_env no_data []) (DEFAULT_CONFIG []) ''Short'' (Fin 100) (Fin 2) =
     (Fin 102, Fin 98) \<and>
   spec_sl_tp (test_env no_data []) (DEFAULT_CONFIG []) ''Short'' (Fin 100) (Fin 2) =
     (Fin 102, Fin 96)"
  by (simp add: sl_tp_def spec_sl_tp_def DEFAULT_CONFIG_def test_env_def Let_def)

text \<open>
  C4: after a recorded signal the value saved to the history file should be the bounded
  history. \<open>process_signal\<close> saves the list of the new record's keys instead, which is
  never the history.
\<close>
theorem process_signal_persists_keys:
  "files (process_signal ev cfg now symbol signal_type entry_price atr_v st) HISTORY_FILE =
     Some (JList [JStr ''time'', JStr ''asset'', JStr ''type'', JStr ''entry_price'',
                  JStr ''sl_price'']) \<and>
   files (process_signal ev cfg now symbol signal_type entry_price atr_v st) HISTORY_FILE \<noteq>
     Some (list_of_deque
            (trade_history (process_signal ev cfg now symbol signal_type entry_price atr_v st)))"
  by (simp add: process_signal_files process_signal_history list_of_dict_def list_of_deque_def
      mk_entry_def appendleft_Cons json_of_entry_def)

text \<open>
  C7: starting from the deque built at start-up, after any sequence of recorded signals
  the history holds at most 50 records and is the first 50 of the records newest first
  (the new ones in reverse order of recording, then the loaded ones): a new record goes
  to the front and what is dropped is the oldest.
\<close>
theorem history_bounded_newest_first:
  "length (trade_history (record_all ev cfg rs (st\<lparr>trade_history := deque loaded\<rparr>))) \<le> 50 \<and>
   trade_history (record_all ev cfg rs (st\<lparr>trade_history := deque loaded\<rparr>)) =
     take 50 (rev (map (entry_of ev cfg) rs) @ deque loaded)"
proof -
  have len: "length (deque loaded) \<le> 50"
    using length_deque [of loaded] by (simp add: maxlen_def)
  have eq: "trade_history (record_all ev cfg rs (st\<lparr>trade_history := deque loaded\<rparr>)) =
     take 50 (rev (map (entry_of ev cfg) rs) @ deque loaded)"
    using len by (simp add: record_all_history maxlen_def)
  from eq show ?thesis by simp
qed

lemma record_all_fakes_open_trades:
  "open_trades (record_all ev cfg (map (\<lambda>(now, price). Faked now price) fs) st) = open_trades st"
  by (induction fs arbitrary: st) (auto simp: fake_signal_open_trades)

text \<open>
  C10: \<open>fake_signal\<close> leaves \<open>open_trades\<close> unchanged and puts its record at the front of
  the history; after any number of fake signals the cap test at the start of a pass has
  the outcome it would have had without them.
\<close>
theorem fake_signal_keeps_open_trades:
  "open_trades (fake_signal ev cfg now price st) = open_trades st \<and>
   trade_history (fake_signal ev cfg now price st) =
     take 50 (entry_of ev cfg (Faked now price) # trade_history st) \<and>
   cap_reached cfg
     (stamp_last_check ev now' (record_all ev cfg (map (\<lambda>(now, price). Faked now price) fs) st)) =
   cap_reached cfg (stamp_last_check ev now' st)"
  by (simp add: fake_signal_open_trades fake_signal_history appendleft_def maxlen_def
      cap_reached_def stamp_last_check_def record_all_fakes_open_trades)




text \<open>
  The claim C3 as stated fails at the boundary: with the latest RSI equal to the oversold
  threshold the specification's Long predicate holds and the code emits nothing.
\<close>
theorem boundary_rsi_counterexample:
  "spec_long_pred (test_env no_data []) (DEFAULT_CONFIG []) (2, 0) prev30 last30 \<and>
   evaluate_entry (test_env no_data []) (DEFAULT_CONFIG []) 0 ''BTC/USDT'' (2, 0) prev30 last30 st0 =
     (Continue, st0)"
  by (simp add: spec_long_pred_def evaluate_entry_def entry_branch_def long_cond_def
      short_cond_def DEFAULT_CONFIG_def prev30_def last30_def test_env_def)

lemma evaluate_entry_long_iff:
  "(snd (evaluate_entry ev cfg now symbol al prev lst st) =
      process_signal ev cfg now symbol ''Long'' (col_c lst) (atr lst) st) =
   long_cond ev cfg (fst al) prev lst"
  using process_signal_neq [of ev cfg now symbol "''Long''" "col_c lst" "atr lst" st]
        process_long_neq_short [of ev cfg now symbol "col_c lst" "atr lst" st]
  by (auto simp: evaluate_entry_def entry_branch_def Let_def)

lemma evaluate_entry_short_iff:
  "(snd (evaluate_entry ev cfg now symbol al prev lst st) =
      process_signal ev cfg now symbol ''Short'' (col_c lst) (atr lst) st) =
   short_cond ev cfg (snd al) prev lst"
  using process_signal_neq [of ev cfg now symbol "''Short''" "col_c lst" "atr lst" st]
        process_long_neq_short [of ev cfg now symbol "col_c lst" "atr lst" st]
        conds_exclusive [of ev cfg "fst al" prev lst "snd al"]
  by (auto simp: evaluate_entry_def entry_branch_def Let_def)

text \<open>
  C3 (amended): for every pair of rows and alignment result, the Long signal is recorded
  exactly when the long count is at least 2, the previous RSI is below the oversold
  threshold, the latest RSI is strictly above it, the latest volume exceeds the float
  product of the volume factor and the volume average, and the latest close is above the
  entry EMA; the Short signal exactly when the mirrored conditions hold, the latest RSI
  strictly below the overbought threshold. The boundary cases do not satisfy the
  respective rule: with the latest RSI equal to the oversold threshold no Long signal is
  recorded, with the latest RSI equal to the overbought threshold no Short signal.
\<close>
theorem entry_rules_strict:
  "(snd (evaluate_entry ev cfg now symbol al prev lst st) =
      process_signal ev cfg now symbol ''Long'' (col_c lst) (atr lst) st) =
     (fst al \<ge> 2 \<and> fl_lt (rsi prev) (Fin (rsi_oversold cfg)) \<and>
      fl_gt (rsi lst) (Fin (rsi_oversold cfg)) \<and>
      fl_gt (col_v lst) (fl_mul (round64 ev) (Fin (volume_factor cfg)) (vol_avg lst)) \<and>
      fl_gt (col_c lst) (ema_e lst)) \<and>
   (snd (evaluate_entry ev cfg now symbol al prev lst st) =
      process_signal ev cfg now symbol ''Short'' (col_c lst) (atr lst) st) =
     (snd al \<ge> 2 \<and> fl_gt (rsi prev) (Fin (rsi_overbought cfg)) \<and>
      fl_lt (rsi lst) (Fin (rsi_overbought cfg)) \<and>
      fl_gt (col_v lst) (fl_mul (round64 ev) (Fin (volume_factor cfg)) (vol_avg lst)) \<and>
      fl_lt (col_c lst) (ema_e lst)) \<and>
   snd (evaluate_entry ev cfg now symbol al prev (lst\<lparr>rsi := Fin (rsi_oversold cfg)\<rparr>) st) \<noteq>
     process_signal ev cfg now symbol ''Long'' (col_c lst) (atr lst) st \<and>
   snd (evaluate_entry ev cfg now symbol al prev (lst\<lparr>rsi := Fin (rsi_overbought cfg)\<rparr>) st) \<noteq>
     process_signal ev cfg now symbol ''Short'' (col_c lst) (atr lst) st"
proof -
  have l: "(snd (evaluate_entry ev cfg now symbol al prev lst st) =
      process_signal ev cfg now symbol ''Long'' (col_c lst) (atr lst) st) =
     (fst al \<ge> 2 \<and> fl_lt (rsi prev) (Fin (rsi_oversold cfg)) \<and>
      fl_gt (rsi lst) (Fin (rsi_oversold cfg)) \<and>
      fl_gt (col_v lst) (fl_mul (round64 ev) (Fin (volume_factor cfg)) (vol_avg lst)) \<and>
      fl_gt (col_c lst) (ema_e lst))"
    unfolding evaluate_entry_long_iff by (simp add: long_cond_def)
  have s: "(snd (evaluate_entry ev cfg now symbol al prev lst st) =
      process_signal ev cfg now symbol ''Short'' (col_c lst) (atr lst) st) =
     (snd al \<ge> 2 \<and> fl_gt (rsi prev) (Fin (rsi_overbought cfg)) \<and>
      fl_lt (rsi lst) (Fin (rsi_overbought cfg)) \<and>
      fl_gt (col_v lst) (fl_mul (round64 ev) (Fin (volume_factor cfg)) (vol_avg lst)) \<and>
      fl_lt (col_c lst) (ema_e lst))"
    unfolding evaluate_entry_short_iff by (simp add: short_cond_def)
  have bl: "snd (evaluate_entry ev cfg now symbol al prev
                  (lst\<lparr>rsi := Fin (rsi_oversold cfg)\<rparr>) st) \<noteq>
     process_signal ev cfg now symbol ''Long'' (col_c lst) (atr lst) st"
    using evaluate_entry_long_iff [of ev cfg now symbol al prev
            "lst\<lparr>rsi := Fin (rsi_oversold cfg)\<rparr>" st]
    by (simp add: long_cond_def)
  have bs: "snd (evaluate_entry ev cfg now symbol al prev
                  (lst\<lparr>rsi := Fin (rsi_overbought cfg)\<rparr>) st) \<noteq>
     process_signal ev cfg now symbol ''Short'' (col_c lst) (atr lst) st"
    using evaluate_entry_short_iff [of ev cfg now symbol al prev
            "lst\<lparr>rsi := Fin (rsi_overbought cfg)\<rparr>" st]
    by (simp add: short_cond_def)
  from l s bl bs show ?thesis by blast
qed

text \<open>The theorem at two rows on which the RSI goes from 28 to 32.\<close>
theorem entry_rules_strict_witness:
  "snd (evaluate_entry (test_env no_data []) (DEFAULT_CONFIG []) 0 ''BTC/USDT'' (2, 0)
         prev30 last32 st0) =
     process_signal (test_env no_data []) (DEFAULT_CONFIG []) 0 ''BTC/USDT'' ''Long''
       (Fin 101) (Fin 2) st0"
  using entry_rules_strict [of "test_env no_data []" "DEFAULT_CONFIG []" 0 "''BTC/USDT''"
      "(2, 0)" prev30 last32 st0]
  by (simp add: DEFAULT_CONFIG_def prev30_def last30_def last32_def test_env_def)

section \<open>A short entry frame\<close>








section \<open>The pass over one symbol\<close>

lemma length_calculate_indicators: "length (calculate_indicators ev df cfg) = length df"
  by (simp add: calculate_indicators_def Let_def)

lemma iloc_last: "xs \<noteq> [] \<Longrightarrow> iloc xs (- 1) = Inr (last xs)"
proof -
  assume ne: "xs \<noteq> []"
  then have "0 < length xs" by simp
  then have "nat (int (length xs) - 1) = length xs - 1" by simp
  with ne show ?thesis
    by (simp add: iloc_def Let_def last_conv_nth)
qed

lemma iloc_prev:
  "iloc xs (- 2) =
     (if 2 \<le> length xs then Inr (xs ! (length xs - 2))
      else Inl ''single positional indexer is out-of-bounds'')"
proof (cases "2 \<le> length xs")
  case True
  then have "nat (int (length xs) - 2) = length xs - 2" by simp
  with True show ?thesis by (simp add: iloc_def Let_def)
next
  case False
  then show ?thesis by (simp add: iloc_def Let_def)
qed

lemma check_symbol_fetched:
  assumes "gather (map (get_market_data ev symbol) (higher_timeframes cfg)) = Inr htf_data"
    and "get_market_data ev symbol (entry_timeframe cfg) = Inr df"
  shows "check_symbol ev cfg now symbol st =
     (if df = [] then (Continue, st)
      else if length df = 1
        then (Continue, on_error ''single positional indexer is out-of-bounds'' st)
      else evaluate_entry ev cfg now symbol (alignment ev cfg htf_data (0, 0))
             (calculate_indicators ev df cfg ! (length df - 2))
             (last (calculate_indicators ev df cfg)) st)"
proof (cases "df = []")
  case True
  with assms show ?thesis by (simp add: check_symbol_def)
next
  case False
  then have ne: "calculate_indicators ev df cfg \<noteq> []"
    using length_calculate_indicators [of ev df cfg] by auto
  have two: "(2 \<le> length df) = (length df \<noteq> 1)"
  proof (cases df)
    case Nil
    with False show ?thesis by simp
  next
    case (Cons a list)
    then show ?thesis by (cases list) simp_all
  qed
  show ?thesis
    using assms False
    by (simp add: check_symbol_def Let_def iloc_last [OF ne] iloc_prev
        length_calculate_indicators two)
qed

lemma evaluate_entry_cases:
  "evaluate_entry ev cfg now symbol al prev lst st = (Continue, st) \<or>
   snd (evaluate_entry ev cfg now symbol al prev lst st) =
     process_signal ev cfg now symbol ''Long'' (col_c lst) (atr lst) st \<or>
   snd (evaluate_entry ev cfg now symbol al prev lst st) =
     process_signal ev cfg now symbol ''Short'' (col_c lst) (atr lst) st"
  by (simp add: evaluate_entry_def entry_branch_def Let_def)

lemma check_symbol_shape:
  "(\<exists>e. check_symbol ev cfg now symbol st = (Continue, on_error e st)) \<or>
   check_symbol ev cfg now symbol st = (Continue, st) \<or>
   (\<exists>al prev lst. check_symbol ev cfg now symbol st =
       evaluate_entry ev cfg now symbol al prev lst st)"
proof (cases "gather (map (get_market_data ev symbol) (higher_timeframes cfg))")
  case (Inl e)
  then have "check_symbol ev cfg now symbol st = (Continue, on_error e st)"
    by (simp add: check_symbol_def)
  then show ?thesis by blast
next
  case htf: (Inr htf_data)
  show ?thesis
  proof (cases "get_market_data ev symbol (entry_timeframe cfg)")
    case (Inl e)
    with htf have "check_symbol ev cfg now symbol st = (Continue, on_error e st)"
      by (simp add: check_symbol_def)
    then show ?thesis by blast
  next
    case (Inr df)
    note eq = check_symbol_fetched [OF htf Inr, of now st]
    consider "df = []" | "df \<noteq> []" "length df = 1" | "df \<noteq> []" "length df \<noteq> 1"
      by blast
    then show ?thesis
    proof cases
      case 1
      with eq have "check_symbol ev cfg now symbol st = (Continue, st)" by simp
      then show ?thesis by blast
    next
      case 2
      with eq have "check_symbol ev cfg now symbol st =
          (Continue, on_error ''single positional indexer is out-of-bounds'' st)"
        by simp
      then show ?thesis by blast
    next
      case 3
      with eq have "check_symbol ev cfg now symbol st =
          evaluate_entry ev cfg now symbol (alignment ev cfg htf_data (0, 0))
             (calculate_indicators ev df cfg ! (length df - 2))
             (last (calculate_indicators ev df cfg)) st"
        by simp
      then show ?thesis by blast
    qed
  qed
qed




lemma check_symbol_cases:
  "(\<exists>e. snd (check_symbol ev cfg now symbol st) = on_error e st) \<or>
   snd (check_symbol ev cfg now symbol st) = st \<or>
   (\<exists>p a. snd (check_symbol ev cfg now symbol st) =
            process_signal ev cfg now symbol ''Long'' p a st) \<or>
   (\<exists>p a. snd (check_symbol ev cfg now symbol st) =
            process_signal ev cfg now symbol ''Short'' p a st)"
proof -
  consider e where "check_symbol ev cfg now symbol st = (Continue, on_error e st)"
    | "check_symbol ev cfg now symbol st = (Continue, st)"
    | al prev lst where "check_symbol ev cfg now symbol st =
         evaluate_entry ev cfg now symbol al prev lst st"
    using check_symbol_shape [of ev cfg now symbol st] by blast
  then show ?thesis
  proof cases
    case 1
    then have "snd (check_symbol ev cfg now symbol st) = on_error e st" by simp
    then show ?thesis by blast
  next
    case 2
    then show ?thesis by simp
  next
    case 3
    have "snd (evaluate_entry ev cfg now symbol al prev lst st) = st \<or>
       snd (evaluate_entry ev cfg now symbol al prev lst st) =
         process_signal ev cfg now symbol ''Long'' (col_c lst) (atr lst) st \<or>
       snd (evaluate_entry ev cfg now symbol al prev lst st) =
         process_signal ev cfg now symbol ''Short'' (col_c lst) (atr lst) st"
      using evaluate_entry_cases [of ev cfg now symbol al prev lst st] by auto
    with 3 show ?thesis by metis
  qed
qed

















section \<open>Manual triggers\<close>

lemma test_strftime_5:
  "test_strftime ''%Y-%m-%d %H:%M:%S'' 5 = ''2024-01-01 00:05:00''"
  by code_simp

text \<open>
  The claim C2 as stated fails: while one pass is suspended in its loop, a manual trigger
  at minute 5 starts a second pass, which overwrites \<open>last_check\<close>; two passes are then
  in progress.
\<close>
theorem manual_trigger_counterexample:
  "running busy_loop = 1 \<and>
   last_check (bot_of busy_loop) = ''2024-01-01 00:00:00'' \<and>
   last_check (bot_of (start_task (test_env no_data []) (DEFAULT_CONFIG []) 5 1
                         (force_check busy_loop))) = ''2024-01-01 00:05:00'' \<and>
   running (start_task (test_env no_data []) (DEFAULT_CONFIG []) 5 1 (force_check busy_loop)) = 2"
  by (simp add: running_def busy_loop_def force_check_def start_task_def stamp_last_check_def
      cap_reached_def test_env_def test_strftime_5 DEFAULT_CONFIG_def st0_def)

text \<open>
  C2 (amended): a manual force-check request is never dropped. It always creates a new
  pass, whether or not one is in progress; the first step of the new pass sets
  \<open>last_check\<close> to the current time and, unless the open-trade cap is reached or no
  symbol is configured, the pass then runs alongside the passes already in progress.
\<close>
theorem manual_trigger_not_guarded:
  "tasks (force_check lp) = tasks lp @ [Created] \<and>
   bot_of (force_check lp) = bot_of lp \<and>
   last_check (bot_of (start_task ev cfg now (length (tasks lp)) (force_check lp))) =
     strftime ev ''%Y-%m-%d %H:%M:%S'' now \<and>
   running (start_task ev cfg now (length (tasks lp)) (force_check lp)) =
     running lp + (if cap_reached cfg (bot_of lp) \<or> active_symbols cfg = [] then 0 else 1)"
  by (simp add: force_check_def start_task_def stamp_last_check_def running_def
      cap_reached_def Let_def)

end
